theory Spec2Isabelle
  imports Complex_Main
begin

section \<open>Double-precision values\<close>

text \<open>
  The interpreter stores numbers as C++ \<^verbatim>\<open>double\<close>. The model keeps the three special
  values of the format apart from the finite ones: \<open>NaN\<close>, the two infinities, and
  \<open>Fin r\<close> for a finite value \<open>r\<close>. Comparisons with \<open>NaN\<close> are false and arithmetic
  on \<open>NaN\<close> gives \<open>NaN\<close>, as in the format. Finite arithmetic is exact here: rounding,
  overflow of finite results and the sign of zero are not modelled, so a sum, difference,
  product or quotient of finite values agrees with the C++ only where the exact result is
  a value of the format. The theorems below use arithmetic only on \<open>NaN\<close>, on the
  infinities and on the difference of a finite value with itself, which is zero in the
  format too.
\<close>

datatype double = NaN | PInf | NInf | Fin real

fun disnan :: "double \<Rightarrow> bool" where
  "disnan NaN = True"
| "disnan PInf = False"
| "disnan NInf = False"
| "disnan (Fin a) = False"

text \<open>\<open>dless a b\<close> is the C++ comparison \<^verbatim>\<open>a < b\<close>.\<close>

fun dless :: "double \<Rightarrow> double \<Rightarrow> bool" where
  "dless NaN b = False"
| "dless PInf b = False"
| "dless NInf NaN = False"
| "dless NInf NInf = False"
| "dless NInf PInf = True"
| "dless NInf (Fin b) = True"
| "dless (Fin a) NaN = False"
| "dless (Fin a) NInf = False"
| "dless (Fin a) PInf = True"
| "dless (Fin a) (Fin b) = (a < b)"

text \<open>\<open>dgt a b\<close> is \<^verbatim>\<open>a > b\<close>.\<close>

definition dgt :: "double \<Rightarrow> double \<Rightarrow> bool" where
  "dgt a b = dless b a"

fun dneg :: "double \<Rightarrow> double" where
  "dneg NaN = NaN"
| "dneg PInf = NInf"
| "dneg NInf = PInf"
| "dneg (Fin a) = Fin (- a)"

fun dadd :: "double \<Rightarrow> double \<Rightarrow> double" where
  "dadd NaN b = NaN"
| "dadd PInf NaN = NaN"
| "dadd PInf NInf = NaN"
| "dadd PInf PInf = PInf"
| "dadd PInf (Fin b) = PInf"
| "dadd NInf NaN = NaN"
| "dadd NInf PInf = NaN"
| "dadd NInf NInf = NInf"
| "dadd NInf (Fin b) = NInf"
| "dadd (Fin a) NaN = NaN"
| "dadd (Fin a) PInf = PInf"
| "dadd (Fin a) NInf = NInf"
| "dadd (Fin a) (Fin b) = Fin (a + b)"

definition dsub :: "double \<Rightarrow> double \<Rightarrow> double" where
  "dsub a b = dadd a (dneg b)"

text \<open>\<open>dabs\<close> is \<^verbatim>\<open>fabs\<close>.\<close>

fun dabs :: "double \<Rightarrow> double" where
  "dabs NaN = NaN"
| "dabs PInf = PInf"
| "dabs NInf = PInf"
| "dabs (Fin a) = Fin \<bar>a\<bar>"

text \<open>The sign of a value other than \<open>NaN\<close>: \<open>1\<close>, \<open>0\<close> or \<open>-1\<close>.\<close>

fun dsign :: "double \<Rightarrow> int" where
  "dsign NaN = 0"
| "dsign PInf = 1"
| "dsign NInf = - 1"
| "dsign (Fin a) = (if 0 < a then 1 else if a < 0 then - 1 else 0)"

definition signed_inf :: "int \<Rightarrow> double" where
  "signed_inf s = (if 0 < s then PInf else if s < 0 then NInf else NaN)"

fun dmul :: "double \<Rightarrow> double \<Rightarrow> double" where
  "dmul NaN b = NaN"
| "dmul a NaN = NaN"
| "dmul (Fin a) (Fin b) = Fin (a * b)"
| "dmul a b = signed_inf (dsign a * dsign b)"

fun ddiv :: "double \<Rightarrow> double \<Rightarrow> double" where
  "ddiv NaN b = NaN"
| "ddiv a NaN = NaN"
| "ddiv (Fin a) (Fin b) = (if b = 0 then signed_inf (dsign (Fin a)) else Fin (a / b))"
| "ddiv (Fin a) b = Fin 0"
| "ddiv a (Fin b) = signed_inf (dsign a * (if b < 0 then - 1 else 1))"
| "ddiv a b = NaN"

text \<open>
  \<^verbatim>\<open>std::max(a, b)\<close> is \<^verbatim>\<open>(a < b) ? b : a\<close> and \<^verbatim>\<open>std::min(a, b)\<close> is
  \<^verbatim>\<open>(b < a) ? b : a\<close>.
\<close>

definition dmax :: "double \<Rightarrow> double \<Rightarrow> double" where
  "dmax a b = (if dless a b then b else a)"

definition dmin :: "double \<Rightarrow> double \<Rightarrow> double" where
  "dmin a b = (if dless b a then b else a)"

text \<open>\<^verbatim>\<open>std::numeric_limits<double>::epsilon()\<close>, that is \<open>2\<^sup>-\<^sup>5\<^sup>2\<close>.\<close>

definition epsilon :: double where
  "epsilon = Fin (1 / 2 ^ 52)"


section \<open>Atoms (atom.cpp)\<close>

text \<open>
  An atom is a tagged value. Symbols and strings share the tag \<open>SymbolKind\<close>; a string is
  a \<open>SymbolKind\<close> whose text starts with the double-quote character.
\<close>

datatype atom =
  NoneKind
| NumberKind double
| SymbolKind string
| ComplexKind double double

definition dq :: char where
  "dq = CHR 0x22"

text \<open>The text of a string literal: the characters between two double quotes.\<close>

definition quoted :: "string \<Rightarrow> string" where
  "quoted s = dq # s @ [dq]"

definition isNone :: "atom \<Rightarrow> bool" where
  "isNone a = (case a of NoneKind \<Rightarrow> True | _ \<Rightarrow> False)"

definition isNumber :: "atom \<Rightarrow> bool" where
  "isNumber a = (case a of NumberKind d \<Rightarrow> True | _ \<Rightarrow> False)"

text \<open>
  \<^verbatim>\<open>stringValue[0]\<close> of an empty \<^verbatim>\<open>std::string\<close> is the terminating zero character,
  which differs from the quote: the empty text is a symbol.
\<close>

definition isSymbol :: "atom \<Rightarrow> bool" where
  "isSymbol a = (case a of
      SymbolKind s \<Rightarrow> (case s of [] \<Rightarrow> True | c # cs \<Rightarrow> c \<noteq> dq)
    | _ \<Rightarrow> False)"

definition isComplex :: "atom \<Rightarrow> bool" where
  "isComplex a = (case a of ComplexKind r i \<Rightarrow> True | _ \<Rightarrow> False)"

definition isString :: "atom \<Rightarrow> bool" where
  "isString a = (case a of
      SymbolKind s \<Rightarrow> (case s of [] \<Rightarrow> False | c # cs \<Rightarrow> c = dq)
    | _ \<Rightarrow> False)"

definition asNumber :: "atom \<Rightarrow> double" where
  "asNumber a = (case a of
      ComplexKind r i \<Rightarrow> r
    | NumberKind d \<Rightarrow> d
    | _ \<Rightarrow> Fin 0)"

text \<open>\<open>asSymbol\<close> erases every double-quote character of the text, wherever it stands.\<close>

definition asSymbol :: "atom \<Rightarrow> string" where
  "asSymbol a = (case a of
      SymbolKind s \<Rightarrow> filter (\<lambda>c. c \<noteq> dq) s
    | _ \<Rightarrow> [])"

text \<open>
  What the C++ library prints is a parameter of the model, together with the process-wide
  interrupt flag (a \<^verbatim>\<open>sig_atomic_t\<close>, a signed integer): \<open>put_double\<close> is
  \<^verbatim>\<open>operator<<\<close> of a stream on a double and \<open>to_string\<close> is \<^verbatim>\<open>std::to_string\<close>.
\<close>

record runtime =
  global_status_flag :: int
  put_double :: "double \<Rightarrow> string"
  to_string :: "double \<Rightarrow> string"

definition asString :: "runtime \<Rightarrow> atom \<Rightarrow> string" where
  "asString rt a = (case a of
      SymbolKind s \<Rightarrow> s
    | NumberKind d \<Rightarrow> put_double rt d
    | ComplexKind r i \<Rightarrow> ''('' @ put_double rt r @ '','' @ put_double rt i @ '')''
    | NoneKind \<Rightarrow> [])"

text \<open>
  \<^verbatim>\<open>Atom::operator==\<close>. Atoms of different tags differ. Two numbers are compared through
  the absolute value of their difference, with a test for \<open>NaN\<close>; two complex values
  through the absolute values of the two components of their difference. The difference
  of two finite values is exact here and rounded in the C++: for two finite values whose
  exact difference is not a value of the format and lies next to the bound, the C++ may
  answer otherwise than this definition.
\<close>

definition atom_eq :: "atom \<Rightarrow> atom \<Rightarrow> bool" where
  "atom_eq left right = (case left of
      NoneKind \<Rightarrow> (case right of NoneKind \<Rightarrow> True | _ \<Rightarrow> False)
    | NumberKind dleft \<Rightarrow> (case right of
          NumberKind dright \<Rightarrow>
            (let diff = dabs (dsub dleft dright) in
             if disnan diff \<or> dgt diff (dmul epsilon (Fin 2)) then False else True)
        | _ \<Rightarrow> False)
    | SymbolKind s \<Rightarrow> (case right of SymbolKind t \<Rightarrow> s = t | _ \<Rightarrow> False)
    | ComplexKind lr li \<Rightarrow> (case right of
          ComplexKind rr ri \<Rightarrow>
            (let realPart = dabs (dsub lr rr); imagPart = dabs (dsub li ri) in
             if dgt realPart (dmul epsilon (Fin 2)) \<or> dgt imagPart (dmul epsilon (Fin 2))
             then False else True)
        | _ \<Rightarrow> False))"


section \<open>Expressions (expression.cpp)\<close>

datatype ExpType = None_type | Singleton | List_type | Lambda | Plot

text \<open>
  A node: its head atom, its children, its property map and its kind tag. The property
  map is a \<^verbatim>\<open>std::map\<close> from text to Expression.
\<close>

datatype Expression =
  Expression (m_head: atom) (m_tail: "Expression list")
    (m_properties: "string \<Rightarrow> Expression option") (m_type: ExpType)

text \<open>The constructors of the class.\<close>

definition empty_exp :: Expression where
  "empty_exp = Expression NoneKind [] Map.empty None_type"

definition atom_exp :: "atom \<Rightarrow> Expression" where
  "atom_exp a = Expression a [] Map.empty Singleton"

definition list_exp :: "Expression list \<Rightarrow> Expression" where
  "list_exp items = Expression NoneKind items Map.empty List_type"

definition lambda_exp :: "Expression list \<Rightarrow> Expression \<Rightarrow> Expression" where
  "lambda_exp args func = Expression NoneKind [list_exp args, func] Map.empty Lambda"

definition plot_exp :: "string \<Rightarrow> Expression list \<Rightarrow> Expression" where
  "plot_exp ty data =
     Expression NoneKind data [''type'' \<mapsto> atom_exp (SymbolKind ty)] Plot"

definition isList :: "Expression \<Rightarrow> bool" where
  "isList e = (m_type e = List_type)"

definition isLambda :: "Expression \<Rightarrow> bool" where
  "isLambda e = (m_type e = Lambda)"

definition isEmpty :: "Expression \<Rightarrow> bool" where
  "isEmpty e = (m_type e = None_type)"

definition getProperty :: "Expression \<Rightarrow> string \<Rightarrow> Expression" where
  "getProperty e key = (case m_properties e key of Some v \<Rightarrow> v | None \<Rightarrow> empty_exp)"

text \<open>
  \<^verbatim>\<open>Expression::operator==\<close>: the heads are compared, then the lengths of the tails,
  then the loop walks both tails together.
\<close>

fun exp_eq :: "Expression \<Rightarrow> Expression \<Rightarrow> bool"
  and tails_eq :: "Expression list \<Rightarrow> Expression list \<Rightarrow> bool" where
  "exp_eq (Expression h t p k) (Expression h' t' p' k') =
     (if atom_eq h h' \<and> length t = length t' then tails_eq t t' else False)"
| "tails_eq [] rs = True"
| "tails_eq (l # ls) [] = True"
| "tails_eq (l # ls) (r # rs) = (exp_eq l r \<and> tails_eq ls rs)"

definition checkProperty :: "Expression \<Rightarrow> string \<Rightarrow> string \<Rightarrow> bool" where
  "checkProperty e key val =
     exp_eq (getProperty e (quoted key)) (atom_exp (SymbolKind (quoted val)))"


section \<open>Outcomes of evaluation\<close>

text \<open>
  Evaluation either returns an Expression or does not. \<open>SemanticError\<close> is the C++
  exception with its message; \<open>UndefinedBehaviour\<close> is a read past the end of a vector
  (\<^verbatim>\<open>m_tail[i]\<close> with \<open>i\<close> out of range), which C++ leaves undefined;
  \<open>AssertionFailure\<close> is a failed \<^verbatim>\<open>assert\<close>; \<open>OutOfFuel\<close> is a recursion deeper
  than the fuel given to the evaluator.
\<close>

datatype abort =
  SemanticError string
| UndefinedBehaviour
| AssertionFailure
| OutOfFuel

text \<open>Sequencing: the first failure ends the computation.\<close>

definition bindr :: "abort + 'a \<Rightarrow> ('a \<Rightarrow> abort + 'b) \<Rightarrow> abort + 'b" where
  "bindr r f = (case r of Inl a \<Rightarrow> Inl a | Inr v \<Rightarrow> f v)"


section \<open>Environment\<close>

text \<open>
  Modelled from the spec: the environment, whose file is not among the sources. Every
  definition of this section follows sections 3 and 4.3 of the specification: the
  environment is a mapping from symbol to an entry, and an entry is a built-in procedure
  or a bound Expression; a procedure takes a sequence of Expressions and returns an
  Expression or fails.
\<close>

type_synonym Procedure = "Expression list \<Rightarrow> abort + Expression"

datatype EnvEntry = BuiltinProc Procedure | BoundExp Expression

type_synonym Environment = "string \<Rightarrow> EnvEntry option"

text \<open>
  Modelled from the spec: the lookup of an entry, missing with the environment's file.
  The environment maps symbols; an atom that is not a symbol has no entry.
\<close>

definition env_entry :: "Environment \<Rightarrow> atom \<Rightarrow> EnvEntry option" where
  "env_entry env nm = (if isSymbol nm then env (asSymbol nm) else None)"

text \<open>
  Modelled from the spec: \<open>is_known\<close>, missing with the environment's file: true iff the
  symbol is either a built-in procedure or a bound expression.
\<close>

definition is_known :: "Environment \<Rightarrow> atom \<Rightarrow> bool" where
  "is_known env nm = (case env_entry env nm of None \<Rightarrow> False | Some x \<Rightarrow> True)"

text \<open>
  Modelled from the spec: \<open>is_proc\<close>, missing with the environment's file: true iff the
  entry is a built-in procedure.
\<close>

definition is_proc :: "Environment \<Rightarrow> atom \<Rightarrow> bool" where
  "is_proc env nm = (case env_entry env nm of Some (BuiltinProc f) \<Rightarrow> True | _ \<Rightarrow> False)"

text \<open>
  Modelled from the spec: \<open>get_proc\<close>, missing with the environment's file: the procedure
  handle; it fails (\<open>None\<close>) if the entry is not a procedure.
\<close>

definition get_proc :: "Environment \<Rightarrow> atom \<Rightarrow> Procedure option" where
  "get_proc env nm = (case env_entry env nm of Some (BuiltinProc f) \<Rightarrow> Some f | _ \<Rightarrow> None)"

text \<open>
  Modelled from the spec: \<open>is_exp\<close>, missing with the environment's file: true iff the
  entry is a bound expression.
\<close>

definition is_exp :: "Environment \<Rightarrow> atom \<Rightarrow> bool" where
  "is_exp env nm = (case env_entry env nm of Some (BoundExp e) \<Rightarrow> True | _ \<Rightarrow> False)"

text \<open>
  Modelled from the spec: \<open>get_exp\<close>, missing with the environment's file: the bound
  Expression. The callers in expression.cpp test \<^verbatim>\<open>env.get_exp(op).isLambda()\<close> before
  they know that \<open>op\<close> is bound, and go on to the built-in procedures when the test is
  false; so a lookup that fails returns the default Expression, which is not a lambda.
\<close>

definition get_exp :: "Environment \<Rightarrow> atom \<Rightarrow> Expression" where
  "get_exp env nm = (case env_entry env nm of Some (BoundExp e) \<Rightarrow> e | _ \<Rightarrow> empty_exp)"

text \<open>
  Modelled from the spec: \<open>add_exp\<close>, missing with the environment's file: binds or
  rebinds in the current environment; it refuses no name.
\<close>

definition add_exp :: "Environment \<Rightarrow> atom \<Rightarrow> Expression \<Rightarrow> Environment" where
  "add_exp env nm e = env(asSymbol nm \<mapsto> BoundExp e)"

text \<open>
  Modelled from the spec: \<open>shadow\<close> (\<^verbatim>\<open>__shadowing_helper\<close> in the callers), missing with
  the environment's file: unconditionally rebinds in the current scope.
\<close>

definition shadow :: "Environment \<Rightarrow> atom \<Rightarrow> Expression \<Rightarrow> Environment" where
  "shadow env nm e = env(asSymbol nm \<mapsto> BoundExp e)"

text \<open>
  Modelled from the spec: the names of the built-in procedures (the table of section 4.4)
  and \<open>reset\<close>, missing with the environment's file: the default environment holds the
  built-in procedures and the constants \<open>pi\<close>, \<open>e\<close> and \<open>I\<close>. The code of the procedures
  is a parameter.
\<close>

definition builtin_names :: "string list" where
  "builtin_names =
     [''+'', ''*'', ''-'', ''/'', ''sqrt'', ''^'', ''ln'', ''sin'', ''cos'', ''tan'',
      ''real'', ''imag'', ''mag'', ''arg'', ''conj'', ''list'', ''first'', ''rest'',
      ''length'', ''append'', ''join'', ''range'', ''make-point'', ''make-line'',
      ''make-text'']"

definition reset :: "(string \<Rightarrow> Procedure) \<Rightarrow> Environment" where
  "reset procs = (\<lambda>s.
     if s \<in> set builtin_names then Some (BuiltinProc (procs s))
     else if s = ''pi'' then Some (BoundExp (atom_exp (NumberKind (Fin pi))))
     else if s = ''e'' then Some (BoundExp (atom_exp (NumberKind (Fin (exp 1)))))
     else if s = ''I'' then Some (BoundExp (atom_exp (ComplexKind (Fin 0) (Fin 1))))
     else None)"


section \<open>The evaluator (expression.cpp)\<close>

text \<open>
  An evaluator takes an Expression and the environment and returns the outcome with the
  environment as the evaluation left it: the C++ passes the environment by reference, so
  what a failed evaluation did to it before the exception stays done.
\<close>

type_synonym evaluator =
  "Expression \<Rightarrow> Environment \<Rightarrow> (abort + Expression) \<times> Environment"

text \<open>
  The loop of \<^verbatim>\<open>handle_list\<close> and of the last lines of \<^verbatim>\<open>eval\<close>: every child is
  evaluated, in order.
\<close>

primrec eval_each ::
  "evaluator \<Rightarrow> Expression list \<Rightarrow> Environment \<Rightarrow> (abort + Expression list) \<times> Environment"
where
  "eval_each ev [] env = (Inr [], env)"
| "eval_each ev (e # es) env =
     (case ev e env of
        (Inl a, env1) \<Rightarrow> (Inl a, env1)
      | (Inr v, env1) \<Rightarrow>
          (case eval_each ev es env1 of
             (Inl a, env2) \<Rightarrow> (Inl a, env2)
           | (Inr vs, env2) \<Rightarrow> (Inr (v # vs), env2)))"

text \<open>The parameters of a lambda are shadowed one after the other.\<close>

fun shadow_params :: "Environment \<Rightarrow> Expression list \<Rightarrow> Expression list \<Rightarrow> Environment" where
  "shadow_params env (p # ps) (a # as) = shadow_params (shadow env (m_head p) a) ps as"
| "shadow_params env ps as = env"

text \<open>
  \<^verbatim>\<open>apply\<close>. The environment is a \<^verbatim>\<open>const\<close> reference: the lambda's body is evaluated
  in the copy \<open>inner_scope\<close>, and the copy is dropped on return. A Lambda always has two
  children in the C++ (its constructor gives them); on one without children the C++ would
  dereference the end of an empty vector.
\<close>

definition apply_operator ::
  "evaluator \<Rightarrow> atom \<Rightarrow> Expression list \<Rightarrow> Environment \<Rightarrow> abort + Expression"
where
  "apply_operator ev op args env =
     (if isLambda (get_exp env op) then
        (let inner_scope = env; lambda = get_exp inner_scope op in
         case m_tail lambda of
           [] \<Rightarrow> Inl UndefinedBehaviour
         | arg_template # rest \<Rightarrow>
             if length args \<noteq> length (m_tail arg_template) then
               Inl (SemanticError
                 ''Error: during apply: Error in call to procedure: invalid number of arguments.'')
             else
               fst (ev (last (m_tail lambda))
                      (shadow_params inner_scope (m_tail arg_template) args)))
      else if \<not> isSymbol op then
        Inl (SemanticError ''Error during evaluation: not a symbol'')
      else if \<not> is_proc env op then
        Inl (SemanticError ''Error during evaluation: symbol does not name a procedure'')
      else
        (case get_proc env op of
           Some proc \<Rightarrow> proc args
         | None \<Rightarrow> Inl (SemanticError ''Error during evaluation: symbol does not name a procedure'')))"

definition handle_lookup :: "runtime \<Rightarrow> atom \<Rightarrow> Environment \<Rightarrow> abort + Expression" where
  "handle_lookup rt head env =
     (if isSymbol head then
        (if is_exp env head then Inr (get_exp env head)
         else Inl (SemanticError
                (''Error during handle lookup: unknown symbol '' @ asString rt head)))
      else if isNumber head \<or> isComplex head \<or> isString head then Inr (atom_exp head)
      else Inl (SemanticError ''Error during handle lookup: Invalid type in terminal expression''))"

text \<open>The loop of \<^verbatim>\<open>handle_begin\<close>, with the variable \<open>result\<close>.\<close>

primrec begin_loop ::
  "evaluator \<Rightarrow> Expression list \<Rightarrow> Expression \<Rightarrow> Environment \<Rightarrow>
     (abort + Expression) \<times> Environment"
where
  "begin_loop ev [] result env = (Inr result, env)"
| "begin_loop ev (e # es) result env =
     (case ev e env of
        (Inl a, env1) \<Rightarrow> (Inl a, env1)
      | (Inr r, env1) \<Rightarrow> begin_loop ev es r env1)"

definition handle_begin :: "evaluator \<Rightarrow> Expression \<Rightarrow> Environment \<Rightarrow>
     (abort + Expression) \<times> Environment" where
  "handle_begin ev e env = begin_loop ev (m_tail e) empty_exp env"

definition handle_define :: "evaluator \<Rightarrow> Expression \<Rightarrow> Environment \<Rightarrow>
     (abort + Expression) \<times> Environment" where
  "handle_define ev e env =
     (case m_tail e of
        [t0, t1] \<Rightarrow>
          if \<not> isSymbol (m_head t0) then
            (Inl (SemanticError
               ''Error during handle define: first argument to define not symbol''), env)
          else
            (let s = asSymbol (m_head t0) in
             if s = ''define'' \<or> s = ''begin'' \<or> s = ''lambda'' \<or> s = ''list'' then
               (Inl (SemanticError
                  ''Error during handle define: attempt to redefine a special-form''), env)
             else if is_proc env (m_head t0) then
               (Inl (SemanticError
                  ''Error during handle define: attempt to redefine a built-in procedure''), env)
             else if s = ''pi'' \<or> s = ''e'' \<or> s = ''I'' then
               (Inl (SemanticError
                  ''Error during handle define: attempt to redefine a built-in symbol''), env)
             else
               (case ev t1 env of
                  (Inl a, env1) \<Rightarrow> (Inl a, env1)
                | (Inr result, env1) \<Rightarrow> (Inr result, add_exp env1 (m_head t0) result)))
      | _ \<Rightarrow>
          (Inl (SemanticError
             ''Error during handle define: invalid number of arguments to define''), env))"

definition handle_list :: "evaluator \<Rightarrow> Expression \<Rightarrow> Environment \<Rightarrow>
     (abort + Expression) \<times> Environment" where
  "handle_list ev e env =
     (case eval_each ev (m_tail e) env of
        (Inl a, env1) \<Rightarrow> (Inl a, env1)
      | (Inr listItems, env1) \<Rightarrow> (Inr (list_exp listItems), env1))"

text \<open>
  \<^verbatim>\<open>handle_lambda\<close> reads \<^verbatim>\<open>m_tail[0]\<close> and \<^verbatim>\<open>m_tail[1]\<close> without a check of the
  size.
\<close>

definition handle_lambda :: "Expression \<Rightarrow> abort + Expression" where
  "handle_lambda e =
     (case m_tail e of
        t0 # t1 # rest \<Rightarrow> Inr (lambda_exp (atom_exp (m_head t0) # m_tail t0) t1)
      | _ \<Rightarrow> Inl UndefinedBehaviour)"

text \<open>
  The test of the operator that \<^verbatim>\<open>handle_apply\<close> and \<^verbatim>\<open>handle_map\<close> share: a lambda
  passes; anything else must name a procedure and have no children.
\<close>

definition operator_ok :: "Environment \<Rightarrow> Expression \<Rightarrow> bool" where
  "operator_ok env t0 =
     (if isLambda (get_exp env (m_head t0)) then True
      else if \<not> is_proc env (m_head t0) then False
      else if 0 < length (m_tail t0) then False
      else True)"

definition handle_apply :: "evaluator \<Rightarrow> Expression \<Rightarrow> Environment \<Rightarrow>
     (abort + Expression) \<times> Environment" where
  "handle_apply ev e env =
     (case m_tail e of
        [t0, t1] \<Rightarrow>
          if \<not> operator_ok env t0 then
            (Inl (SemanticError ''Error: first argument to apply not a procedure''), env)
          else
            (case ev t1 env of
               (Inl a, env1) \<Rightarrow> (Inl a, env1)
             | (Inr arguments, env1) \<Rightarrow>
                 if \<not> isList arguments then
                   (Inl (SemanticError ''Error: second argument to apply not a list''), env1)
                 else (apply_operator ev (m_head t0) (m_tail arguments) env1, env1))
      | _ \<Rightarrow> (Inl (SemanticError ''Error during apply: invalid number of arguments''), env))"

text \<open>The loop of \<^verbatim>\<open>handle_map\<close>: the operator is applied to one element at a time.\<close>

primrec map_loop ::
  "evaluator \<Rightarrow> atom \<Rightarrow> Environment \<Rightarrow> Expression list \<Rightarrow> abort + Expression list"
where
  "map_loop ev op env [] = Inr []"
| "map_loop ev op env (x # xs) =
     (case apply_operator ev op [x] env of
        Inl a \<Rightarrow> Inl a
      | Inr temp_e \<Rightarrow>
          (case map_loop ev op env xs of
             Inl a \<Rightarrow> Inl a
           | Inr return_args \<Rightarrow> Inr (temp_e # return_args)))"

definition handle_map :: "evaluator \<Rightarrow> Expression \<Rightarrow> Environment \<Rightarrow>
     (abort + Expression) \<times> Environment" where
  "handle_map ev e env =
     (case m_tail e of
        [t0, t1] \<Rightarrow>
          if \<not> operator_ok env t0 then
            (Inl (SemanticError ''Error: first argument to map not a procedure''), env)
          else
            (case ev t1 env of
               (Inl a, env1) \<Rightarrow> (Inl a, env1)
             | (Inr list_evaled, env1) \<Rightarrow>
                 if \<not> isList list_evaled then
                   (Inl (SemanticError ''Error: second argument to apply not a list''), env1)
                 else
                   (case map_loop ev (m_head t0) env1 (m_tail list_evaled) of
                      Inl a \<Rightarrow> (Inl a, env1)
                    | Inr return_args \<Rightarrow> (Inr (list_exp return_args), env1)))
      | _ \<Rightarrow> (Inl (SemanticError ''Error during map: invalid number of arguments''), env))"

text \<open>
  \<^verbatim>\<open>handle_set_property\<close>: the target (third child) is evaluated first, then the value
  (second child); an old property under the key is erased before the new one is stored.
\<close>

definition set_prop :: "Expression \<Rightarrow> string \<Rightarrow> Expression \<Rightarrow> Expression" where
  "set_prop e key val =
     Expression (m_head e) (m_tail e) ((m_properties e)(key \<mapsto> val)) (m_type e)"

definition erase_prop :: "Expression \<Rightarrow> string \<Rightarrow> Expression" where
  "erase_prop e key =
     Expression (m_head e) (m_tail e) ((m_properties e)(key := None)) (m_type e)"

definition handle_set_property :: "runtime \<Rightarrow> evaluator \<Rightarrow> Expression \<Rightarrow> Environment \<Rightarrow>
     (abort + Expression) \<times> Environment" where
  "handle_set_property rt ev e env =
     (case m_tail e of
        [t0, t1, t2] \<Rightarrow>
          if isString (m_head t0) then
            (case ev t2 env of
               (Inl a, env1) \<Rightarrow> (Inl a, env1)
             | (Inr result, env1) \<Rightarrow>
                 (let key = asString rt (m_head t0);
                      result1 = (case m_properties result key of
                                   Some old \<Rightarrow> erase_prop result key
                                 | None \<Rightarrow> result)
                  in case ev t1 env1 of
                       (Inl a, env2) \<Rightarrow> (Inl a, env2)
                     | (Inr val, env2) \<Rightarrow> (Inr (set_prop result1 key val), env2)))
          else (Inl (SemanticError ''Error: first argument to set-property not a string.''), env)
      | _ \<Rightarrow> (Inl (SemanticError ''Error invalid number of arguments for set-property.''), env))"

definition handle_get_property :: "runtime \<Rightarrow> evaluator \<Rightarrow> Expression \<Rightarrow> Environment \<Rightarrow>
     (abort + Expression) \<times> Environment" where
  "handle_get_property rt ev e env =
     (case m_tail e of
        [t0, t1] \<Rightarrow>
          (case ev t1 env of
             (Inl a, env1) \<Rightarrow> (Inl a, env1)
           | (Inr target, env1) \<Rightarrow>
               if isString (m_head t0) then
                 (Inr (getProperty target (asString rt (m_head t0))), env1)
               else
                 (Inl (SemanticError ''Error: first argument to get-property not a string.''),
                  env1))
      | _ \<Rightarrow> (Inl (SemanticError ''Error: invalid number of arguments for get-property.''), env))"


subsection \<open>discrete-plot\<close>

text \<open>
  The first loop of \<^verbatim>\<open>handle_discrete_plot\<close>: the largest and smallest coordinates of
  the data. Every element of the data is read at \<^verbatim>\<open>m_tail[0]\<close> and \<^verbatim>\<open>m_tail[1]\<close>.
\<close>

fun extrema :: "Expression list \<Rightarrow> double \<times> double \<times> double \<times> double \<Rightarrow>
     abort + (double \<times> double \<times> double \<times> double)" where
  "extrema [] acc = Inr acc"
| "extrema (p # ps) (xmax, xmin, ymax, ymin) =
     (case m_tail p of
        px # py # rest \<Rightarrow>
          (let xval = asNumber (m_head px); yval = asNumber (m_head py) in
           extrema ps (dmax xval xmax, dmin xval xmin, dmax yval ymax, dmin yval ymin))
      | _ \<Rightarrow> Inl UndefinedBehaviour)"

definition make_point ::
  "evaluator \<Rightarrow> Environment \<Rightarrow> double \<Rightarrow> double \<Rightarrow> abort + Expression" where
  "make_point ev env x y =
     apply_operator ev (SymbolKind ''make-point'')
       [atom_exp (NumberKind x), atom_exp (NumberKind y)] env"

definition make_line ::
  "evaluator \<Rightarrow> Environment \<Rightarrow> Expression \<Rightarrow> Expression \<Rightarrow> abort + Expression" where
  "make_line ev env a b = apply_operator ev (SymbolKind ''make-line'') [a, b] env"

text \<open>The loop over the options: \<^verbatim>\<open>opt.m_tail[1]\<close> of each.\<close>

fun option_items :: "Expression list \<Rightarrow> abort + Expression list" where
  "option_items [] = Inr []"
| "option_items (opt # opts) =
     (case m_tail opt of
        o0 # o1 # rest \<Rightarrow> bindr (option_items opts) (\<lambda>r. Inr (o1 # r))
      | _ \<Rightarrow> Inl UndefinedBehaviour)"

text \<open>The loop over the data: each point and its stem line.\<close>

fun stems :: "evaluator \<Rightarrow> Environment \<Rightarrow> double \<Rightarrow> Expression list \<Rightarrow>
     abort + Expression list" where
  "stems ev env stembottomy [] = Inr []"
| "stems ev env stembottomy (point # points) =
     (case m_tail point of
        px # py # rest \<Rightarrow>
          (let x = asNumber (m_head px); y = dmul (asNumber (m_head py)) (Fin (- 1)) in
           bindr (make_point ev env x y) (\<lambda>new_point.
           bindr (make_point ev env x stembottomy) (\<lambda>stem_bottom.
           bindr (make_line ev env new_point stem_bottom) (\<lambda>stemline.
           bindr (stems ev env stembottomy points) (\<lambda>r.
           Inr (new_point # stemline # r))))))
      | _ \<Rightarrow> Inl UndefinedBehaviour)"

definition axis :: "evaluator \<Rightarrow> Environment \<Rightarrow> bool \<Rightarrow> double \<Rightarrow> double \<Rightarrow> double \<Rightarrow>
     double \<Rightarrow> abort + Expression list" where
  "axis ev env drawn x0 y0 x1 y1 =
     (if drawn then
        bindr (make_point ev env x0 y0) (\<lambda>axisStart.
        bindr (make_point ev env x1 y1) (\<lambda>axisEnd.
        bindr (make_line ev env axisStart axisEnd) (\<lambda>ax.
        Inr [ax])))
      else Inr [])"

definition label :: "runtime \<Rightarrow> double \<Rightarrow> Expression" where
  "label rt d = atom_exp (SymbolKind (quoted (to_string rt d)))"

definition discrete_plot_body ::
  "runtime \<Rightarrow> evaluator \<Rightarrow> Expression \<Rightarrow> Expression \<Rightarrow> Environment \<Rightarrow> abort + Expression"
where
  "discrete_plot_body rt ev DATA OPTIONS env =
     (let numpoints = length (m_tail DATA) in
      bindr (extrema (m_tail DATA) (Fin (- 999), Fin 999, Fin (- 999), Fin 999))
        (\<lambda>(xmax, xmin, ymax, ymin).
      let AL = xmin; AU = xmax; OL = ymin; OU = ymax;
          xmiddle = ddiv (dadd xmax xmin) (Fin 2);
          ymiddle = ddiv (dsub ymin ymax) (Fin 2) in
      bindr (make_point ev env xmin ymax) (\<lambda>topLeft.
      bindr (make_point ev env xmiddle ymax) (\<lambda>topMid.
      bindr (make_point ev env xmax ymax) (\<lambda>topRight.
      bindr (make_point ev env xmin ymiddle) (\<lambda>midLeft.
      bindr (make_point ev env xmiddle ymiddle) (\<lambda>midMid.
      bindr (make_point ev env xmax ymiddle) (\<lambda>midRight.
      bindr (make_point ev env xmin ymin) (\<lambda>botLeft.
      bindr (make_point ev env xmiddle ymin) (\<lambda>botMid.
      bindr (make_point ev env xmax ymin) (\<lambda>botRight.
      bindr (make_line ev env topLeft botLeft) (\<lambda>leftLine.
      bindr (make_line ev env topRight botRight) (\<lambda>rightLine.
      bindr (make_line ev env topLeft topRight) (\<lambda>topLine.
      bindr (make_line ev env botLeft botRight) (\<lambda>botLine.
      if \<not> checkProperty leftLine ''object-name'' ''line'' then Inl AssertionFailure
      else
      bindr (option_items (m_tail OPTIONS)) (\<lambda>opts.
      let numoptions = length (m_tail OPTIONS);
          stembottomy = dmul (dmax (Fin 0) ymin) (Fin (- 1)) in
      bindr (stems ev env stembottomy (m_tail DATA)) (\<lambda>points.
      bindr (axis ev env (dless (Fin 0) OU \<or> dgt (Fin 0) OL) xmax (Fin 0) xmin (Fin 0))
        (\<lambda>xaxis.
      bindr (axis ev env (dless (Fin 0) AU \<or> dgt (Fin 0) AL) (Fin 0) ymax (Fin 0) ymin)
        (\<lambda>yaxis.
      let dp = plot_exp ''DP''
                 ([leftLine, rightLine, topLine, botLine]
                  @ [label rt AL, label rt AU, label rt OL, label rt OU]
                  @ opts @ points @ xaxis @ yaxis);
          dp1 = set_prop dp ''numpoints'' (atom_exp (NumberKind (Fin (real numpoints))))
      in Inr (set_prop dp1 ''numoptions''
                (atom_exp (NumberKind (Fin (real numoptions))))))))))))))))))))))))"

definition handle_discrete_plot :: "runtime \<Rightarrow> evaluator \<Rightarrow> Expression \<Rightarrow> Environment \<Rightarrow>
     (abort + Expression) \<times> Environment" where
  "handle_discrete_plot rt ev e env =
     (case m_tail e of
        [t0, t1] \<Rightarrow>
          (case ev t0 env of
             (Inl a, env1) \<Rightarrow> (Inl a, env1)
           | (Inr DATA, env1) \<Rightarrow>
               (case ev t1 env1 of
                  (Inl a, env2) \<Rightarrow> (Inl a, env2)
                | (Inr OPTIONS, env2) \<Rightarrow>
                    if \<not> isList DATA then
                      (Inl (SemanticError
                         ''Error: An argument to discrete-plot is not a list''), env2)
                    else if \<not> isList OPTIONS then
                      (Inl (SemanticError
                         ''Error: An argument to discrete-plot is not a list''), env2)
                    else (discrete_plot_body rt ev DATA OPTIONS env2, env2)))
      | _ \<Rightarrow>
          (Inl (SemanticError ''Error: invalid number of arguments for discrete-plot''), env))"

subsection \<open>continuous-plot\<close>

text \<open>
  \<^verbatim>\<open>handle_cont_plot\<close> checks its arguments and then returns \<^verbatim>\<open>Expression()\<close>; the
  lines that would build the plot are commented out in the source.
\<close>

definition cont_plot_checks :: "evaluator \<Rightarrow> Expression \<Rightarrow> Expression \<Rightarrow> Expression list \<Rightarrow>
     Environment \<Rightarrow> (abort + Expression) \<times> Environment" where
  "cont_plot_checks ev FUNC BOUNDS third env =
     (case ev FUNC env of
        (Inl a, env1) \<Rightarrow> (Inl a, env1)
      | (Inr f, env1) \<Rightarrow>
          if \<not> isLambda f then
            (Inl (SemanticError
               ''Error: first argument to continuous plot not a lambda''), env1)
          else
            (case ev BOUNDS env1 of
               (Inl a, env2) \<Rightarrow> (Inl a, env2)
             | (Inr b, env2) \<Rightarrow>
                 if \<not> isList b then
                   (Inl (SemanticError
                      ''Error: second argument to continuous plot not a list''), env2)
                 else
                   (case third of
                      [] \<Rightarrow> (Inr empty_exp, env2)
                    | t2 # rest \<Rightarrow>
                        (case ev t2 env2 of
                           (Inl a, env3) \<Rightarrow> (Inl a, env3)
                         | (Inr opts, env3) \<Rightarrow>
                             if \<not> isList opts then
                               (Inl (SemanticError
                                  ''Error: third argument to continuous plot not a list''),
                                env3)
                             else (Inr empty_exp, env3)))))"

definition handle_cont_plot :: "evaluator \<Rightarrow> Expression \<Rightarrow> Environment \<Rightarrow>
     (abort + Expression) \<times> Environment" where
  "handle_cont_plot ev e env =
     (case m_tail e of
        [t0, t1] \<Rightarrow> cont_plot_checks ev t0 t1 [] env
      | [t0, t1, t2] \<Rightarrow> cont_plot_checks ev t0 t1 [t2] env
      | _ \<Rightarrow>
          (Inl (SemanticError
             ''Error: invalid number of arguments for continuous plot''), env))"

subsection \<open>eval\<close>

text \<open>
  \<^verbatim>\<open>Expression::eval\<close>. The recursion of the C++ is not bounded by the size of the
  Expression (a lambda's body comes from the environment), so the model counts the depth
  of the recursion: \<open>eval n\<close> allows \<open>n\<close> nested calls, and answers \<open>OutOfFuel\<close> where the
  C++ would go deeper.
\<close>

primrec eval :: "nat \<Rightarrow> runtime \<Rightarrow> evaluator" where
  "eval 0 rt = (\<lambda>e env. (Inl OutOfFuel, env))"
| "eval (Suc n) rt = (\<lambda>e env.
     if 0 < global_status_flag rt then
       (Inl (SemanticError ''Error: interpreter kernal interupted''), env)
     else if asSymbol (m_head e) = ''list'' then handle_list (eval n rt) e env
     else if m_tail e = [] then (handle_lookup rt (m_head e) env, env)
     else if asSymbol (m_head e) = ''begin'' then handle_begin (eval n rt) e env
     else if asSymbol (m_head e) = ''define'' then handle_define (eval n rt) e env
     else if asSymbol (m_head e) = ''lambda'' then (handle_lambda e, env)
     else if asSymbol (m_head e) = ''apply'' then handle_apply (eval n rt) e env
     else if asSymbol (m_head e) = ''map'' then handle_map (eval n rt) e env
     else if asSymbol (m_head e) = ''set-property'' then
       handle_set_property rt (eval n rt) e env
     else if asSymbol (m_head e) = ''get-property'' then
       handle_get_property rt (eval n rt) e env
     else if asSymbol (m_head e) = ''discrete-plot'' then
       handle_discrete_plot rt (eval n rt) e env
     else if asSymbol (m_head e) = ''continuous-plot'' then
       handle_cont_plot (eval n rt) e env
     else
       (case eval_each (eval n rt) (m_tail e) env of
          (Inl a, env1) \<Rightarrow> (Inl a, env1)
        | (Inr results, env1) \<Rightarrow>
            (apply_operator (eval n rt) (m_head e) results env1, env1)))"


section \<open>Concrete programs and environments\<close>

text \<open>
  The parser is not among the sources; section 4.2 of the specification gives the trees it
  builds. The tree of \<^verbatim>\<open>(h e1 ... en)\<close> is a node whose head is the atom of \<open>h\<close>,
  built by the constructor \<^verbatim>\<open>Expression(const Atom &)\<close>, with the trees of the
  children as its tail. A bare token is a node without children, a number literal is the
  Expression of its number atom, and a string literal is the Expression of the atom that
  keeps the quotes (\<^verbatim>\<open>Atom(const Token &)\<close> in atom.cpp).
\<close>

definition call :: "string \<Rightarrow> Expression list \<Rightarrow> Expression" where
  "call h es = Expression (SymbolKind h) es Map.empty Singleton"

definition symbol :: "string \<Rightarrow> Expression" where
  "symbol s = call s []"

definition num :: "real \<Rightarrow> Expression" where
  "num r = atom_exp (NumberKind (Fin r))"

definition str :: "string \<Rightarrow> Expression" where
  "str s = atom_exp (SymbolKind (quoted s))"

text \<open>
  A runtime with a given interrupt flag, and a table of procedures for closed examples in
  which no built-in procedure is called (the code of the built-in procedures is not among
  the sources).
\<close>

definition runtime_with :: "int \<Rightarrow> runtime" where
  "runtime_with flag =
     \<lparr>global_status_flag = flag, put_double = (\<lambda>d. []), to_string = (\<lambda>d. [])\<rparr>"

definition unavailable :: "string \<Rightarrow> Procedure" where
  "unavailable name = (\<lambda>args. Inl (SemanticError name))"


text \<open>The program \<^verbatim>\<open>(continuous-plot (lambda (x) x) (list 0 1))\<close>.\<close>

definition cont_plot_program :: Expression where
  "cont_plot_program =
     call ''continuous-plot''
       [call ''lambda'' [symbol ''x'', symbol ''x''], call ''list'' [num 0, num 1]]"


text \<open>
  The lambda that \<^verbatim>\<open>(lambda (x) x)\<close> evaluates to, and the environment after
  \<^verbatim>\<open>(define x 1)\<close> and \<^verbatim>\<open>(define f (lambda (x) x))\<close> in the default environment.
\<close>

definition identity_lambda :: Expression where
  "identity_lambda = lambda_exp [symbol ''x''] (symbol ''x'')"


text \<open>The program \<^verbatim>\<open>(get-property "key" (set-property "key" 42 (list 1 2)))\<close>.\<close>

definition property_program :: Expression where
  "property_program =
     call ''get-property''
       [str ''key'', call ''set-property'' [str ''key'', num 42, call ''list'' [num 1, num 2]]]"

text \<open>The program \<^verbatim>\<open>(begin (define a 1) b)\<close>, whose second child fails.\<close>

definition failing_program :: Expression where
  "failing_program = call ''begin'' [call ''define'' [symbol ''a'', num 1], symbol ''b'']"

text \<open>
  The Expressions in which no number atom at the head of a node, at any depth of the
  tree, is \<open>NaN\<close> or infinite. The property maps are not looked at.
\<close>

definition finite_number :: "atom \<Rightarrow> bool" where
  "finite_number a = (case a of
      NumberKind d \<Rightarrow> (case d of Fin r \<Rightarrow> True | _ \<Rightarrow> False)
    | _ \<Rightarrow> True)"

fun finite_heads :: "Expression \<Rightarrow> bool"
  and finite_heads_list :: "Expression list \<Rightarrow> bool" where
  "finite_heads (Expression h t p k) = (finite_number h \<and> finite_heads_list t)"
| "finite_heads_list [] = True"
| "finite_heads_list (e # es) = (finite_heads e \<and> finite_heads_list es)"

text \<open>A list whose one element is the number atom \<open>NaN\<close>, as \<^verbatim>\<open>(list x)\<close> returns it.\<close>

definition nan_list :: Expression where
  "nan_list = list_exp [atom_exp (NumberKind NaN)]"

text \<open>An evaluator keeps the binding of \<open>a\<close> when no call of it removes the binding.\<close>

definition keeps :: "atom \<Rightarrow> evaluator \<Rightarrow> bool" where
  "keeps a ev = (\<forall>e env. is_exp env a \<longrightarrow> is_exp (snd (ev e env)) a)"


section \<open>Evaluating small terms\<close>

lemma eval_zero: "eval 0 rt e env = (Inl OutOfFuel, env)"
  by simp

lemma eval_step:
  "eval (Suc n) rt e env =
    (if 0 < global_status_flag rt then
       (Inl (SemanticError ''Error: interpreter kernal interupted''), env)
     else if asSymbol (m_head e) = ''list'' then handle_list (eval n rt) e env
     else if m_tail e = [] then (handle_lookup rt (m_head e) env, env)
     else if asSymbol (m_head e) = ''begin'' then handle_begin (eval n rt) e env
     else if asSymbol (m_head e) = ''define'' then handle_define (eval n rt) e env
     else if asSymbol (m_head e) = ''lambda'' then (handle_lambda e, env)
     else if asSymbol (m_head e) = ''apply'' then handle_apply (eval n rt) e env
     else if asSymbol (m_head e) = ''map'' then handle_map (eval n rt) e env
     else if asSymbol (m_head e) = ''set-property'' then
       handle_set_property rt (eval n rt) e env
     else if asSymbol (m_head e) = ''get-property'' then
       handle_get_property rt (eval n rt) e env
     else if asSymbol (m_head e) = ''discrete-plot'' then
       handle_discrete_plot rt (eval n rt) e env
     else if asSymbol (m_head e) = ''continuous-plot'' then
       handle_cont_plot (eval n rt) e env
     else
       (case eval_each (eval n rt) (m_tail e) env of
          (Inl a, env1) \<Rightarrow> (Inl a, env1)
        | (Inr results, env1) \<Rightarrow>
            (apply_operator (eval n rt) (m_head e) results env1, env1)))"
  by simp

declare eval.simps [simp del]

lemmas node_defs =
  call_def symbol_def num_def str_def atom_exp_def list_exp_def lambda_exp_def empty_exp_def

lemma call_sel [simp]: "m_head (call h es) = SymbolKind h" "m_tail (call h es) = es"
  by (simp_all add: call_def)

lemma symbol_sel [simp]: "m_head (symbol s) = SymbolKind s" "m_tail (symbol s) = []"
  by (simp_all add: symbol_def)

lemma num_sel [simp]: "m_head (num r) = NumberKind (Fin r)" "m_tail (num r) = []"
  by (simp_all add: num_def atom_exp_def)

lemma str_sel [simp]: "m_head (str s) = SymbolKind (quoted s)" "m_tail (str s) = []"
  by (simp_all add: str_def atom_exp_def)

lemma asSymbol_quoted:
  "dq \<notin> set s \<Longrightarrow> asSymbol (SymbolKind (quoted s)) = s"
  by (auto simp: asSymbol_def quoted_def filter_id_conv)

lemma isString_quoted [simp]: "isString (SymbolKind (quoted s))"
  by (simp add: isString_def quoted_def)

lemma isSymbol_quoted [simp]: "\<not> isSymbol (SymbolKind (quoted s))"
  by (simp add: isSymbol_def quoted_def)

lemma asString_symbol [simp]: "asString rt (SymbolKind s) = s"
  by (simp add: asString_def)

text \<open>A number literal evaluates to itself when the interrupt flag is clear.\<close>

lemma eval_num:
  "global_status_flag rt \<le> 0 \<Longrightarrow> eval (Suc n) rt (num r) env = (Inr (num r), env)"
  by (simp add: eval_step node_defs asSymbol_def handle_lookup_def isSymbol_def isNumber_def)

lemma eval_list_of_nums:
  "global_status_flag rt \<le> 0 \<Longrightarrow>
   eval (Suc (Suc n)) rt (call ''list'' [num a, num b]) env = (Inr (list_exp [num a, num b]), env)"
  by (simp add: eval_step [of "Suc n"] eval_num asSymbol_def dq_def handle_list_def)


section \<open>Equality of atoms\<close>

text \<open>
  C9 (code bug). The claim: two number atoms, or two complex atoms, are equal exactly when
  the absolute difference of their values is within twice the machine epsilon, and any
  comparison involving a NaN returns false, in the number variant and in the complex
  variant. The number variant tests \<^verbatim>\<open>std::isnan\<close>; the complex variant only asks
  whether a component of the difference is greater than the bound, which is false for a
  NaN: the complex atom \<open>(NaN, 0)\<close> compares equal to the complex atom \<open>(5, 0)\<close>, while the
  number atom \<open>NaN\<close> differs from itself.
\<close>

theorem complex_nan_compares_equal:
  "atom_eq (ComplexKind NaN (Fin 0)) (ComplexKind (Fin 5) (Fin 0)) = True
   \<and> atom_eq (NumberKind NaN) (NumberKind NaN) = False"
  by (simp add: atom_eq_def dsub_def dgt_def epsilon_def)


section \<open>Equality of Expressions\<close>

lemma tails_eq_nth:
  "length ls = length rs \<Longrightarrow>
   tails_eq ls rs = (\<forall>i < length ls. exp_eq (ls ! i) (rs ! i))"
proof (induction ls rs rule: list_induct2)
  case Nil
  show ?case by simp
next
  case (Cons l ls r rs)
  then show ?case by (auto simp: less_Suc_eq_0_disj)
qed

text \<open>
  An atom is equal to itself unless it is a number atom that is \<open>NaN\<close> or infinite: the
  difference of such a number with itself is \<open>NaN\<close>. (The difference of a finite number
  with itself is zero in the format as it is here.) A complex atom is equal to itself
  whatever its components.
\<close>

lemma atom_eq_self: "atom_eq a a = finite_number a"
proof (cases a)
  case (NumberKind d)
  then show ?thesis
    by (cases d) (simp_all add: atom_eq_def finite_number_def dsub_def dgt_def epsilon_def)
next
  case (ComplexKind r i)
  then show ?thesis
    by (cases r; cases i)
      (simp_all add: atom_eq_def finite_number_def dsub_def dgt_def epsilon_def)
qed (simp_all add: atom_eq_def finite_number_def)

lemma exp_eq_self:
  "exp_eq a a = finite_heads a" and "tails_eq ts ts = finite_heads_list ts"
  by (induction a and ts rule: finite_heads_finite_heads_list.induct)
    (simp_all add: atom_eq_self)

lemma exp_eq_ignores_kind_and_properties:
  "exp_eq (Expression (m_head a) (m_tail a) p k) b = exp_eq a b"
  "exp_eq b (Expression (m_head a) (m_tail a) p k) = exp_eq b a"
  by (cases a; cases b; simp)+

text \<open>
  C10 (corrected), the counterexample. The claim: two Expressions differing only in kind,
  or only in properties, compare equal. The number atom \<open>NaN\<close> differs from itself, so a
  node with that head differs from the same node under another kind, a List holding it
  differs from the call node with the same head and children, and it differs from itself
  after \<^verbatim>\<open>set-property\<close>.
\<close>

theorem nan_node_differs_under_other_kind:
  "exp_eq (Expression (NumberKind NaN) [] Map.empty List_type) (atom_exp (NumberKind NaN)) = False
   \<and> exp_eq nan_list (Expression (m_head nan_list) (m_tail nan_list) Map.empty Singleton) = False
   \<and> exp_eq (set_prop nan_list (quoted ''key'') (num 42)) nan_list = False"
  by (simp add: nan_list_def list_exp_def atom_exp_def set_prop_def atom_eq_def dsub_def)

text \<open>
  C10 (corrected), the amended claim. \<^verbatim>\<open>operator==\<close> on two Expressions is true exactly
  when the head atoms are equal (by the equality of atoms), the tails have the same length
  and the elements are equal pairwise. The kind tag and the property map do not take
  part: replacing them on either side leaves the result as it was. So an Expression and
  the Expression with its head and tail under any other kind and properties compare equal
  exactly when no number atom at a head of the tree is \<open>NaN\<close> or infinite.
\<close>

theorem exp_eq_heads_and_tails:
  "exp_eq a b =
     (atom_eq (m_head a) (m_head b) \<and> length (m_tail a) = length (m_tail b)
      \<and> (\<forall>i < length (m_tail a). exp_eq (m_tail a ! i) (m_tail b ! i)))
   \<and> exp_eq (Expression h t p k) (Expression h' t' p' k')
       = exp_eq (Expression h t p2 k2) (Expression h' t' p2' k2')
   \<and> exp_eq (Expression (m_head a) (m_tail a) p k) a = finite_heads a
   \<and> exp_eq a (Expression (m_head a) (m_tail a) p k) = finite_heads a"
proof (intro conjI)
  show "exp_eq a b =
     (atom_eq (m_head a) (m_head b) \<and> length (m_tail a) = length (m_tail b)
      \<and> (\<forall>i < length (m_tail a). exp_eq (m_tail a ! i) (m_tail b ! i)))"
    by (cases a; cases b) (auto simp: tails_eq_nth)
  show "exp_eq (Expression h t p k) (Expression h' t' p' k')
       = exp_eq (Expression h t p2 k2) (Expression h' t' p2' k2')"
    by simp
  show "exp_eq (Expression (m_head a) (m_tail a) p k) a = finite_heads a"
    by (simp add: exp_eq_ignores_kind_and_properties exp_eq_self)
  show "exp_eq a (Expression (m_head a) (m_tail a) p k) = finite_heads a"
    by (simp add: exp_eq_ignores_kind_and_properties exp_eq_self)
qed

theorem exp_eq_heads_and_tails_witness:
  "finite_heads (list_exp [num 1, num 2])
   \<and> exp_eq (list_exp [num 1, num 2]) (list_exp [num 1, num 2])
   \<and> exp_eq (Expression NoneKind [num 1, num 2] Map.empty Singleton) (list_exp [num 1, num 2])
   \<and> exp_eq (set_prop (list_exp [num 1, num 2]) (quoted ''key'') (num 42))
        (list_exp [num 1, num 2])
   \<and> exp_eq (call [] [num 1, num 2]) (list_exp [num 1, num 2]) = False"
proof -
  let ?l = "list_exp [num 1, num 2]"
  have fin: "finite_heads ?l"
    by (simp add: list_exp_def num_def atom_exp_def finite_number_def)
  have sel: "m_head ?l = NoneKind" "m_tail ?l = [num 1, num 2]"
    by (simp_all add: list_exp_def)
  note main = exp_eq_heads_and_tails [of ?l ?l]
  from main fin have any: "exp_eq (Expression (m_head ?l) (m_tail ?l) p k) ?l" for p k
    by blast
  have self: "exp_eq ?l ?l"
    using any [of "m_properties ?l" "m_type ?l"] by (simp add: list_exp_def)
  have kind: "exp_eq (Expression NoneKind [num 1, num 2] Map.empty Singleton) ?l"
    using any [of Map.empty Singleton] by (simp add: sel)
  have stored: "exp_eq (set_prop ?l (quoted ''key'') (num 42)) ?l"
    using any [of "(m_properties ?l)(quoted ''key'' \<mapsto> num 42)" "m_type ?l"]
    by (simp add: set_prop_def)
  have head: "exp_eq (call [] [num 1, num 2]) ?l = False"
    by (simp add: call_def list_exp_def atom_eq_def)
  from fin self kind stored head show ?thesis by blast
qed


section \<open>The empty-tail rule\<close>

text \<open>
  X1. With the interrupt flag clear, a node without children whose head \<open>asSymbol\<close> does
  not map to the text \<open>list\<close> is looked up: a symbol gives the expression bound to it, or
  fails with the "unknown symbol" error; a number, a complex or a string gives itself as a
  Singleton; a None atom fails.
\<close>

theorem empty_tail_lookup:
  assumes "global_status_flag rt \<le> 0" and "m_tail e = []"
    and "asSymbol (m_head e) \<noteq> ''list''"
  shows "eval (Suc n) rt e env =
     (if isSymbol (m_head e) then
        (if is_exp env (m_head e) then Inr (get_exp env (m_head e))
         else Inl (SemanticError
                (''Error during handle lookup: unknown symbol '' @ asString rt (m_head e))))
      else if isNumber (m_head e) \<or> isComplex (m_head e) \<or> isString (m_head e) then
        Inr (atom_exp (m_head e))
      else Inl (SemanticError ''Error during handle lookup: Invalid type in terminal expression''),
      env)"
  using assms by (simp add: eval_step handle_lookup_def)

theorem empty_tail_lookup_witness:
  "global_status_flag (runtime_with 0) \<le> 0
   \<and> m_tail (str ''abc'') = []
   \<and> asSymbol (m_head (str ''abc'')) \<noteq> ''list''
   \<and> eval (Suc 0) (runtime_with 0) (str ''abc'') (reset unavailable)
       = (Inr (str ''abc''), reset unavailable)"
proof -
  have flag: "global_status_flag (runtime_with 0) \<le> 0"
    by (simp add: runtime_with_def)
  have tail: "m_tail (str ''abc'') = []"
    by simp
  have head: "asSymbol (m_head (str ''abc'')) \<noteq> ''list''"
    by (simp add: asSymbol_quoted dq_def)
  from empty_tail_lookup [OF flag tail head, of 0 "reset unavailable"] flag tail head
  show ?thesis
    by (simp add: str_def atom_exp_def)
qed

text \<open>
  C1 (code bug). The claim: with an empty tail, a head atom that is a number, a complex or
  a string evaluates to itself as a Singleton, and the only exception is a head equal to
  the symbol \<open>list\<close>. The dispatch compares \<open>asSymbol\<close> of the head with \<open>list\<close>, and
  \<open>asSymbol\<close> erases the quotes of a string: the string literal \<^verbatim>\<open>"list"\<close> is a string
  atom, and it evaluates to the empty List, not to itself as \<open>handle_lookup\<close> would have
  it.
\<close>

theorem string_list_evaluates_to_empty_list:
  "isString (m_head (str ''list''))
   \<and> m_tail (str ''list'') = []
   \<and> eval (Suc n) (rt\<lparr>global_status_flag := 0\<rparr>) (str ''list'') env = (Inr (list_exp []), env)
   \<and> handle_lookup rt (m_head (str ''list'')) env = Inr (str ''list'')"
  by (simp add: eval_step str_def atom_exp_def asSymbol_quoted dq_def handle_list_def
      handle_lookup_def isNumber_def isComplex_def)


section \<open>define\<close>

text \<open>
  X2. What \<^verbatim>\<open>handle_define\<close> refuses: the four names it lists (define, begin,
  lambda, list), the built-in procedures and the three constants (pi, e, I). The
  definition fails with a semantic error and the environment is left as it was.
\<close>

theorem define_refuses_checked_names:
  assumes "global_status_flag rt \<le> 0"
    and "asSymbol (m_head e) = ''define''" and "m_tail e = [t0, t1]"
    and "isSymbol (m_head t0)"
    and "asSymbol (m_head t0) \<in> {''define'', ''begin'', ''lambda'', ''list'', ''pi'', ''e'', ''I''}
         \<or> is_proc env (m_head t0)"
  shows "\<exists>msg. eval (Suc n) rt e env = (Inl (SemanticError msg), env)"
  using assms by (auto simp: eval_step handle_define_def Let_def)

theorem define_refuses_checked_names_witness:
  "global_status_flag (runtime_with 0) \<le> 0
   \<and> isSymbol (m_head (symbol ''pi''))
   \<and> asSymbol (m_head (symbol ''pi'')) = ''pi''
   \<and> is_proc (reset unavailable) (m_head (symbol ''+''))
   \<and> (\<exists>msg. eval (Suc 0) (runtime_with 0) (call ''define'' [symbol ''pi'', num 3])
                (reset unavailable)
              = (Inl (SemanticError msg), reset unavailable))
   \<and> (\<exists>msg. eval (Suc 0) (runtime_with 0) (call ''define'' [symbol ''+'', num 3])
                (reset unavailable)
              = (Inl (SemanticError msg), reset unavailable))"
proof -
  have flag: "global_status_flag (runtime_with 0) \<le> 0"
    by (simp add: runtime_with_def)
  have d: "asSymbol (m_head (call ''define'' es)) = ''define''" for es
    by (simp add: asSymbol_def dq_def)
  have s1: "isSymbol (m_head (symbol ''pi''))" and s2: "isSymbol (m_head (symbol ''+''))"
    by (simp_all add: isSymbol_def dq_def)
  have p1: "asSymbol (m_head (symbol ''pi'')) = ''pi''"
    by (simp add: asSymbol_def dq_def)
  have p2: "is_proc (reset unavailable) (m_head (symbol ''+''))"
    by (simp add: is_proc_def env_entry_def isSymbol_def asSymbol_def dq_def reset_def
        builtin_names_def)
  have a: "\<exists>msg. eval (Suc 0) (runtime_with 0) (call ''define'' [symbol ''pi'', num 3])
                (reset unavailable)
              = (Inl (SemanticError msg), reset unavailable)"
    by (rule define_refuses_checked_names [OF flag d _ s1]) (insert p1, simp_all)
  have b: "\<exists>msg. eval (Suc 0) (runtime_with 0) (call ''define'' [symbol ''+'', num 3])
                (reset unavailable)
              = (Inl (SemanticError msg), reset unavailable)"
    by (rule define_refuses_checked_names [OF flag d _ s2]) (insert p2, simp_all)
  from flag s1 p1 p2 a b show ?thesis by blast
qed


text \<open>
  C3 (code bug). The claim: for every symbol that names a special form (begin, define,
  lambda, list, apply, map, set-property, get-property, discrete-plot, continuous-plot), a
  built-in procedure or a reserved constant, \<^verbatim>\<open>(define s v)\<close> fails and adds no binding.
  \<^verbatim>\<open>handle_define\<close> lists four of the ten special forms; \<^verbatim>\<open>(define map 3)\<close> in the
  default environment succeeds and binds \<open>map\<close>.
\<close>

theorem define_map_binds:
  "eval (Suc (Suc 0)) (rt\<lparr>global_status_flag := 0\<rparr>) (call ''define'' [symbol ''map'', num 3])
       (reset procs)
     = (Inr (num 3), add_exp (reset procs) (SymbolKind ''map'') (num 3))
   \<and> is_exp (reset procs) (SymbolKind ''map'') = False
   \<and> is_exp (add_exp (reset procs) (SymbolKind ''map'') (num 3)) (SymbolKind ''map'') = True"
  by (simp add: eval_step [of "Suc 0"] eval_num handle_define_def
      asSymbol_def dq_def isSymbol_def is_proc_def is_exp_def env_entry_def reset_def
      builtin_names_def add_exp_def)


section \<open>begin\<close>

lemma begin_loop_eval_each:
  "begin_loop ev es r0 env =
     (case eval_each ev es env of
        (Inl a, env1) \<Rightarrow> (Inl a, env1)
      | (Inr vs, env1) \<Rightarrow> (Inr (last (r0 # vs)), env1))"
  by (induction es arbitrary: r0 env) (auto split: prod.splits sum.splits)

lemma eval_each_nonempty:
  "eval_each ev es env = (Inr vs, env1) \<Longrightarrow> es \<noteq> [] \<Longrightarrow> vs \<noteq> []"
  by (cases es) (auto split: prod.splits sum.splits)

lemma eval_each_append:
  "eval_each ev (es1 @ es2) env =
     (case eval_each ev es1 env of
        (Inl a, env1) \<Rightarrow> (Inl a, env1)
      | (Inr vs, env1) \<Rightarrow>
          (case eval_each ev es2 env1 of
             (Inl a, env2) \<Rightarrow> (Inl a, env2)
           | (Inr ws, env2) \<Rightarrow> (Inr (vs @ ws), env2)))"
  by (induction es1 arbitrary: env) (auto split: sum.splits prod.splits)

lemma handle_begin_no_children:
  "m_tail e = [] \<Longrightarrow> handle_begin ev e env = (Inr empty_exp, env)"
  by (simp add: handle_begin_def)

lemma eval_begin:
  assumes "global_status_flag rt \<le> 0" and "asSymbol (m_head e) = ''begin''"
    and "m_tail e \<noteq> []"
  shows "eval (Suc n) rt e env = begin_loop (eval n rt) (m_tail e) empty_exp env"
  using assms by (simp add: eval_step handle_begin_def)

text \<open>
  C4 (corrected), the counterexample. The claim: a begin form with no children returns a
  None Expression rather than failing. \<^verbatim>\<open>eval\<close> applies the empty-tail rule before it
  looks for \<open>begin\<close>; \<^verbatim>\<open>(begin)\<close> is looked up as a symbol, and fails in the default
  environment.
\<close>

theorem empty_begin_fails:
  "eval (Suc 0) (runtime_with 0) (call ''begin'' []) (reset unavailable)
   = (Inl (SemanticError ''Error during handle lookup: unknown symbol begin''),
      reset unavailable)"
  by (simp add: eval_step runtime_with_def asSymbol_def dq_def handle_lookup_def
      isSymbol_def is_exp_def env_entry_def reset_def builtin_names_def)

text \<open>
  C4 (corrected), the amended claim. With the interrupt flag clear, a begin form with at
  least one child evaluates its children in order, each in the environment the one before
  left, and returns the result of the last child, or the first failure; a begin node with
  no children falls under the empty-tail rule: its head is looked up.
\<close>

theorem begin_returns_last_child:
  assumes "global_status_flag rt \<le> 0" and "asSymbol (m_head e) = ''begin''"
  shows "eval (Suc n) rt e env =
     (if m_tail e = [] then (handle_lookup rt (m_head e) env, env)
      else (case eval_each (eval n rt) (m_tail e) env of
              (Inl a, env1) \<Rightarrow> (Inl a, env1)
            | (Inr vs, env1) \<Rightarrow> (Inr (last vs), env1)))"
proof (cases "m_tail e = []")
  case True
  with assms show ?thesis by (simp add: eval_step)
next
  case False
  have "eval (Suc n) rt e env = begin_loop (eval n rt) (m_tail e) empty_exp env"
    using assms False by (rule eval_begin)
  also have "\<dots> = (case eval_each (eval n rt) (m_tail e) env of
              (Inl a, env1) \<Rightarrow> (Inl a, env1)
            | (Inr vs, env1) \<Rightarrow> (Inr (last vs), env1))"
    using False
    by (auto simp: begin_loop_eval_each dest: eval_each_nonempty split: prod.splits sum.splits)
  finally show ?thesis using False by simp
qed

theorem begin_returns_last_child_witness:
  "global_status_flag (runtime_with 0) \<le> 0
   \<and> asSymbol (m_head (call ''begin'' [num 1, num 2])) = ''begin''
   \<and> eval (Suc (Suc 0)) (runtime_with 0) (call ''begin'' [num 1, num 2]) (reset unavailable)
       = (Inr (num 2), reset unavailable)"
proof -
  have flag: "global_status_flag (runtime_with 0) \<le> 0"
    by (simp add: runtime_with_def)
  have head: "asSymbol (m_head (call ''begin'' [num 1, num 2])) = ''begin''"
    by (simp add: asSymbol_def dq_def)
  show ?thesis
    using flag head begin_returns_last_child [OF flag head, of "Suc 0" "reset unavailable"]
    by (simp add: eval_num)
qed


section \<open>Bindings persist through evaluation\<close>

lemma is_exp_add_exp: "is_exp env a \<Longrightarrow> is_exp (add_exp env s v) a"
  by (auto simp: is_exp_def add_exp_def env_entry_def split: if_splits)

lemma ev_keeps:
  "keeps a ev \<Longrightarrow> ev e env = (r, env1) \<Longrightarrow> is_exp env a \<Longrightarrow> is_exp env1 a"
  by (metis keeps_def snd_conv)

lemma eval_each_keeps:
  "keeps a ev \<Longrightarrow> is_exp env a \<Longrightarrow> is_exp (snd (eval_each ev es env)) a"
proof (induction es arbitrary: env)
  case Nil
  then show ?case by simp
next
  case (Cons e es)
  show ?case
  proof (cases "ev e env")
    case (Pair r env1)
    with Cons.prems have 2: "is_exp env1 a" by (auto dest: ev_keeps)
    from Cons.IH [OF Cons.prems(1) 2] Pair 2 show ?thesis
      by (auto split: sum.splits prod.splits)
  qed
qed

lemma begin_loop_keeps:
  "keeps a ev \<Longrightarrow> is_exp env a \<Longrightarrow> is_exp (snd (begin_loop ev es r env)) a"
  using eval_each_keeps [where env=env and es=es and ev=ev and a=a]
  by (auto simp: begin_loop_eval_each split: sum.splits prod.splits)

lemma handle_define_keeps:
  "keeps a ev \<Longrightarrow> is_exp env a \<Longrightarrow> is_exp (snd (handle_define ev e env)) a"
  by (auto simp: handle_define_def Let_def is_exp_add_exp dest: ev_keeps
      split: list.splits sum.splits prod.splits)

lemma handle_list_keeps:
  "keeps a ev \<Longrightarrow> is_exp env a \<Longrightarrow> is_exp (snd (handle_list ev e env)) a"
  using eval_each_keeps [where env=env and es="m_tail e" and ev=ev and a=a]
  by (auto simp: handle_list_def split: sum.splits prod.splits)

lemma handle_apply_keeps:
  "keeps a ev \<Longrightarrow> is_exp env a \<Longrightarrow> is_exp (snd (handle_apply ev e env)) a"
  by (auto simp: handle_apply_def dest: ev_keeps
      split: list.splits sum.splits prod.splits)

lemma handle_map_keeps:
  "keeps a ev \<Longrightarrow> is_exp env a \<Longrightarrow> is_exp (snd (handle_map ev e env)) a"
  by (auto simp: handle_map_def dest: ev_keeps
      split: list.splits sum.splits prod.splits)

lemma handle_set_property_keeps:
  "keeps a ev \<Longrightarrow> is_exp env a \<Longrightarrow> is_exp (snd (handle_set_property rt ev e env)) a"
  by (auto simp: handle_set_property_def Let_def dest: ev_keeps
      split: list.splits sum.splits prod.splits)

lemma handle_get_property_keeps:
  "keeps a ev \<Longrightarrow> is_exp env a \<Longrightarrow> is_exp (snd (handle_get_property rt ev e env)) a"
  by (auto simp: handle_get_property_def dest: ev_keeps
      split: list.splits sum.splits prod.splits)

lemma handle_discrete_plot_keeps:
  "keeps a ev \<Longrightarrow> is_exp env a \<Longrightarrow> is_exp (snd (handle_discrete_plot rt ev e env)) a"
  by (auto simp: handle_discrete_plot_def dest: ev_keeps
      split: list.splits sum.splits prod.splits)

lemma cont_plot_checks_keeps:
  "keeps a ev \<Longrightarrow> is_exp env a \<Longrightarrow> is_exp (snd (cont_plot_checks ev f b third env)) a"
  by (auto simp: cont_plot_checks_def dest: ev_keeps
      split: list.splits sum.splits prod.splits)

lemma handle_cont_plot_keeps:
  "keeps a ev \<Longrightarrow> is_exp env a \<Longrightarrow> is_exp (snd (handle_cont_plot ev e env)) a"
  by (auto simp: handle_cont_plot_def cont_plot_checks_keeps split: list.splits)

text \<open>Evaluation never removes the binding of a symbol to an expression.\<close>

lemma eval_keeps_all: "keeps a (eval n rt)"
proof (induction n)
  case 0
  show ?case by (simp add: keeps_def eval_zero)
next
  case (Suc n)
  show ?case
    unfolding keeps_def
  proof (intro allI impI)
    fix e env
    assume b: "is_exp env a"
    have args: "is_exp (snd (case eval_each (eval n rt) (m_tail e) env of
          (Inl x, env1) \<Rightarrow> (Inl x, env1)
        | (Inr results, env1) \<Rightarrow>
            (apply_operator (eval n rt) (m_head e) results env1, env1))) a"
      using eval_each_keeps [OF Suc b, where es="m_tail e"]
      by (auto split: sum.splits prod.splits)
    show "is_exp (snd (eval (Suc n) rt e env)) a"
      unfolding eval_step
      using b args Suc
      by (simp add: handle_list_keeps begin_loop_keeps handle_begin_def
          handle_define_keeps handle_apply_keeps handle_map_keeps
          handle_set_property_keeps handle_get_property_keeps
          handle_discrete_plot_keeps handle_cont_plot_keeps)
  qed
qed

lemma eval_keeps:
  "eval n rt e env = (r, env1) \<Longrightarrow> is_exp env a \<Longrightarrow> is_exp env1 a"
  using eval_keeps_all [of a n rt] by (rule ev_keeps)

text \<open>
  C8. When a child of a begin form fails with a semantic error after the children before
  it succeeded, the begin form fails with that error, and the environment is the one the
  failing child left: nothing is rolled back, and every symbol that was bound to an
  expression after the earlier children is still bound.
\<close>

theorem begin_failure_keeps_bindings:
  assumes "global_status_flag rt \<le> 0" and "asSymbol (m_head e) = ''begin''"
    and "m_tail e = es1 @ c # es2"
    and "eval_each (eval n rt) es1 env = (Inr vs, env1)"
    and "eval n rt c env1 = (Inl (SemanticError msg), env2)"
  shows "eval (Suc n) rt e env = (Inl (SemanticError msg), env2)
     \<and> (\<forall>a. is_exp env1 a \<longrightarrow> is_exp env2 a)"
proof
  have "eval (Suc n) rt e env = begin_loop (eval n rt) (es1 @ c # es2) empty_exp env"
    using assms(1-3) by (simp add: eval_begin)
  also have "\<dots> = (Inl (SemanticError msg), env2)"
    using assms(4,5) by (simp add: begin_loop_eval_each eval_each_append)
  finally show "eval (Suc n) rt e env = (Inl (SemanticError msg), env2)" .
  show "\<forall>a. is_exp env1 a \<longrightarrow> is_exp env2 a"
    using assms(5) by (blast intro: eval_keeps)
qed

theorem begin_failure_keeps_bindings_witness:
  "global_status_flag (runtime_with 0) \<le> 0
   \<and> asSymbol (m_head failing_program) = ''begin''
   \<and> m_tail failing_program = [call ''define'' [symbol ''a'', num 1]] @ symbol ''b'' # []
   \<and> eval_each (eval (Suc (Suc 0)) (runtime_with 0)) [call ''define'' [symbol ''a'', num 1]]
        (reset unavailable)
       = (Inr [num 1], add_exp (reset unavailable) (SymbolKind ''a'') (num 1))
   \<and> eval (Suc (Suc (Suc 0))) (runtime_with 0) failing_program (reset unavailable)
       = (Inl (SemanticError ''Error during handle lookup: unknown symbol b''),
          add_exp (reset unavailable) (SymbolKind ''a'') (num 1))
   \<and> is_exp (add_exp (reset unavailable) (SymbolKind ''a'') (num 1)) (SymbolKind ''a'')"
proof -
  let ?rt = "runtime_with 0" and ?env = "reset unavailable"
  let ?d = "call ''define'' [symbol ''a'', num 1]"
  let ?env1 = "add_exp ?env (SymbolKind ''a'') (num 1)"
  have flag: "global_status_flag ?rt \<le> 0"
    by (simp add: runtime_with_def)
  have h1: "asSymbol (m_head failing_program) = ''begin''"
    by (simp add: failing_program_def call_def asSymbol_def dq_def)
  have h2: "m_tail failing_program = [?d] @ symbol ''b'' # []"
    by (simp add: failing_program_def call_def)
  have d: "eval (Suc (Suc 0)) ?rt ?d ?env = (Inr (num 1), ?env1)"
    using flag
    by (simp add: eval_step [of "Suc 0"] eval_num handle_define_def call_def symbol_def
        asSymbol_def dq_def isSymbol_def is_proc_def env_entry_def reset_def builtin_names_def)
  have h3: "eval_each (eval (Suc (Suc 0)) ?rt) [?d] ?env = (Inr [num 1], ?env1)"
    by (simp add: d)
  have h4: "eval (Suc (Suc 0)) ?rt (symbol ''b'') ?env1
      = (Inl (SemanticError ''Error during handle lookup: unknown symbol b''), ?env1)"
    using flag
    by (simp add: eval_step call_def symbol_def asSymbol_def dq_def isSymbol_def
        handle_lookup_def is_exp_def env_entry_def reset_def builtin_names_def add_exp_def)
  have bound: "is_exp ?env1 (SymbolKind ''a'')"
    by (simp add: is_exp_def env_entry_def add_exp_def isSymbol_def asSymbol_def dq_def)
  from begin_failure_keeps_bindings [OF flag h1 h2 h3 h4] flag h1 h2 h3 bound
  show ?thesis by blast
qed


section \<open>Lambda application\<close>

lemma apply_lambda:
  assumes "isLambda (get_exp env op)" and "m_tail (get_exp env op) = tmpl # rest"
    and "length args = length (m_tail tmpl)"
  shows "apply_operator ev op args env =
     fst (ev (last (tmpl # rest)) (shadow_params env (m_tail tmpl) args))"
  using assms by (simp add: apply_operator_def Let_def)









section \<open>Properties\<close>

lemma getProperty_set_prop: "getProperty (set_prop e key v) key = v"
  by (simp add: getProperty_def set_prop_def)

text \<open>
  C5. For a string key, a target that evaluates to \<open>target\<close> and a value that then
  evaluates to \<open>val\<close>, \<^verbatim>\<open>(get-property k (set-property k v t))\<close> returns \<open>val\<close>,
  whatever property the target had under the key; and \<^verbatim>\<open>(get-property k' t)\<close> returns
  the None Expression for a key under which the evaluated target has no property.
\<close>

theorem get_after_set_property:
  assumes "global_status_flag rt \<le> 0"
    and "asSymbol (m_head e) = ''get-property''" and "m_tail e = [k1, s]"
    and "asSymbol (m_head s) = ''set-property''" and "m_tail s = [k2, v, t]"
    and "isString (m_head k1)" and "m_head k2 = m_head k1"
    and "eval n rt t env = (Inr target, env1)"
    and "eval n rt v env1 = (Inr val, env2)"
  shows "eval (Suc (Suc n)) rt e env = (Inr val, env2)
     \<and> (\<forall>g k'. asSymbol (m_head g) = ''get-property'' \<and> m_tail g = [k', t]
           \<and> isString (m_head k') \<and> m_properties target (asString rt (m_head k')) = None
         \<longrightarrow> eval (Suc n) rt g env = (Inr empty_exp, env1))"
proof (intro conjI allI impI)
  have "eval (Suc n) rt s env
      = (Inr (set_prop (case m_properties target (asString rt (m_head k1)) of
                          Some old \<Rightarrow> erase_prop target (asString rt (m_head k1))
                        | None \<Rightarrow> target) (asString rt (m_head k1)) val), env2)"
    using assms by (simp add: eval_step handle_set_property_def Let_def)
  then show "eval (Suc (Suc n)) rt e env = (Inr val, env2)"
    using assms
    by (simp add: eval_step [of "Suc n"] handle_get_property_def getProperty_set_prop)
next
  fix g k'
  assume "asSymbol (m_head g) = ''get-property'' \<and> m_tail g = [k', t]
           \<and> isString (m_head k') \<and> m_properties target (asString rt (m_head k')) = None"
  then show "eval (Suc n) rt g env = (Inr empty_exp, env1)"
    using assms by (simp add: eval_step handle_get_property_def getProperty_def)
qed


theorem get_after_set_property_witness:
  "global_status_flag (runtime_with 0) \<le> 0
   \<and> isString (m_head (str ''key''))
   \<and> eval (Suc (Suc 0)) (runtime_with 0) (call ''list'' [num 1, num 2]) (reset unavailable)
       = (Inr (list_exp [num 1, num 2]), reset unavailable)
   \<and> eval (Suc (Suc 0)) (runtime_with 0) (num 42) (reset unavailable)
       = (Inr (num 42), reset unavailable)
   \<and> eval (Suc (Suc (Suc (Suc 0)))) (runtime_with 0) property_program (reset unavailable)
       = (Inr (num 42), reset unavailable)
   \<and> eval (Suc (Suc (Suc 0))) (runtime_with 0)
         (call ''get-property'' [str ''other'', call ''list'' [num 1, num 2]]) (reset unavailable)
       = (Inr empty_exp, reset unavailable)"
proof -
  let ?rt = "runtime_with 0" and ?env = "reset unavailable"
  let ?t = "call ''list'' [num 1, num 2]"
  let ?s = "call ''set-property'' [str ''key'', num 42, ?t]"
  have flag: "global_status_flag ?rt \<le> 0"
    by (simp add: runtime_with_def)
  have h1: "asSymbol (m_head property_program) = ''get-property''"
    by (simp add: property_program_def call_def asSymbol_def dq_def)
  have h2: "m_tail property_program = [str ''key'', ?s]"
    by (simp add: property_program_def call_def)
  have h3: "asSymbol (m_head ?s) = ''set-property''"
    by (simp add: call_def asSymbol_def dq_def)
  have h4: "m_tail ?s = [str ''key'', num 42, ?t]"
    by (simp add: call_def)
  have h5: "isString (m_head (str ''key''))"
    by (simp add: str_def atom_exp_def)
  have h6: "eval (Suc (Suc 0)) ?rt ?t ?env = (Inr (list_exp [num 1, num 2]), ?env)"
    using flag by (rule eval_list_of_nums)
  have h7: "eval (Suc (Suc 0)) ?rt (num 42) ?env = (Inr (num 42), ?env)"
    using flag by (rule eval_num)
  note main = get_after_set_property [OF flag h1 h2 h3 h4 h5 refl h6 h7]
  have g1: "asSymbol (m_head (call ''get-property'' [str ''other'', ?t])) = ''get-property''"
    by (simp add: call_def asSymbol_def dq_def)
  have g2: "m_properties (list_exp [num 1, num 2]) (asString ?rt (m_head (str ''other''))) = None"
    by (simp add: list_exp_def)
  have "eval (Suc (Suc (Suc 0))) ?rt (call ''get-property'' [str ''other'', ?t]) ?env
      = (Inr empty_exp, ?env)"
    using main g1 g2 by (simp add: call_def str_def atom_exp_def)
  with flag h5 h6 h7 main show ?thesis by simp
qed


section \<open>Plots\<close>

text \<open>
  What \<^verbatim>\<open>handle_discrete_plot\<close> returns, when it returns: a Plot of type \<open>DP\<close> with
  the properties \<open>numpoints\<close> and \<open>numoptions\<close>, the lengths of its two lists.
\<close>

lemma bindr_Inr: "bindr r f = Inr v \<Longrightarrow> \<exists>x. r = Inr x \<and> f x = Inr v"
  by (cases r) (simp_all add: bindr_def)

lemma discrete_plot_body_result:
  assumes "discrete_plot_body rt ev DATA OPTIONS env = Inr dp"
  shows "m_type dp = Plot
     \<and> m_properties dp ''numpoints''
         = Some (atom_exp (NumberKind (Fin (real (length (m_tail DATA))))))
     \<and> m_properties dp ''numoptions''
         = Some (atom_exp (NumberKind (Fin (real (length (m_tail OPTIONS))))))
     \<and> m_properties dp ''type'' = Some (atom_exp (SymbolKind ''DP''))"
  using assms
  unfolding discrete_plot_body_def Let_def
  by (auto dest!: bindr_Inr simp: set_prop_def plot_exp_def split: if_splits prod.splits)

text \<open>
  C6 (code bug). The claim: with valid arguments, discrete-plot and continuous-plot both
  return an Expression of kind Plot whose children are drawable primitives, carrying the
  properties \<open>numpoints\<close> and \<open>numoptions\<close>. \<^verbatim>\<open>handle_cont_plot\<close> returns
  \<^verbatim>\<open>Expression()\<close> after its checks: for a lambda and a list of bounds the result has
  the kind None, no children and no properties.
\<close>

theorem continuous_plot_returns_empty:
  "eval (Suc (Suc (Suc 0))) (rt\<lparr>global_status_flag := 0\<rparr>) cont_plot_program env
     = (Inr empty_exp, env)
   \<and> m_type empty_exp = None_type \<and> m_tail empty_exp = []
   \<and> m_properties empty_exp = Map.empty"
  by (simp add: cont_plot_program_def eval_step node_defs asSymbol_def dq_def
      handle_cont_plot_def cont_plot_checks_def handle_lambda_def handle_list_def
      handle_lookup_def isSymbol_def isNumber_def isLambda_def isList_def)


section \<open>The interrupt flag\<close>

lemma eval_interrupted:
  "0 < global_status_flag rt \<Longrightarrow>
   eval (Suc n) rt e env = (Inl (SemanticError ''Error: interpreter kernal interupted''), env)"
  by (simp add: eval_step)

text \<open>
  C7 (corrected), the counterexample. The claim: a nonzero flag interrupts every
  evaluation. The test is \<^verbatim>\<open>global_status_flag > 0\<close>: with the flag at \<open>-1\<close> a
  number evaluates to itself.
\<close>

theorem negative_flag_does_not_interrupt:
  "global_status_flag (runtime_with (- 1)) \<noteq> 0
   \<and> eval (Suc 0) (runtime_with (- 1)) (num 1) (reset unavailable)
     = (Inr (num 1), reset unavailable)"
  by (simp add: eval_num runtime_with_def)

text \<open>
  C7 (corrected), the amended claim. When the flag is greater than zero, every call of
  \<^verbatim>\<open>eval\<close> fails with one and the same semantic error and leaves the environment as it
  was; the flag is read at the top of every call, so in the loop of \<open>map\<close> over a
  lambda of one parameter the application to the next element fails with that error.
\<close>

theorem positive_flag_interrupts:
  assumes "0 < global_status_flag rt"
  shows "\<exists>msg.
     (\<forall>n e env. eval (Suc n) rt e env = (Inl (SemanticError msg), env))
     \<and> (\<forall>n op x xs env tmpl rest.
          isLambda (get_exp env op) \<and> m_tail (get_exp env op) = tmpl # rest
          \<and> length (m_tail tmpl) = 1
          \<longrightarrow> map_loop (eval (Suc n) rt) op env (x # xs) = Inl (SemanticError msg))"
proof (intro exI conjI allI impI)
  fix n e env
  show "eval (Suc n) rt e env
      = (Inl (SemanticError ''Error: interpreter kernal interupted''), env)"
    using assms by (rule eval_interrupted)
next
  fix n op x xs env tmpl rest
  assume lam: "isLambda (get_exp env op) \<and> m_tail (get_exp env op) = tmpl # rest
      \<and> length (m_tail tmpl) = 1"
  then have "apply_operator (eval (Suc n) rt) op [x] env
      = fst (eval (Suc n) rt (last (tmpl # rest)) (shadow_params env (m_tail tmpl) [x]))"
    by (intro apply_lambda) simp_all
  then have "apply_operator (eval (Suc n) rt) op [x] env
      = Inl (SemanticError ''Error: interpreter kernal interupted'')"
    using assms by (simp add: eval_interrupted)
  then show "map_loop (eval (Suc n) rt) op env (x # xs)
      = Inl (SemanticError ''Error: interpreter kernal interupted'')"
    by simp
qed

theorem positive_flag_interrupts_witness:
  "0 < global_status_flag (runtime_with 1)
   \<and> (\<exists>msg. eval (Suc 0) (runtime_with 1) (num 1) (reset unavailable)
          = (Inl (SemanticError msg), reset unavailable)
        \<and> map_loop (eval (Suc 0) (runtime_with 1)) (SymbolKind ''f'')
            (add_exp (reset unavailable) (SymbolKind ''f'') identity_lambda) [num 1, num 2]
          = Inl (SemanticError msg))"
proof -
  have flag: "0 < global_status_flag (runtime_with 1)"
    by (simp add: runtime_with_def)
  let ?env = "add_exp (reset unavailable) (SymbolKind ''f'') identity_lambda"
  have bound: "get_exp ?env (SymbolKind ''f'') = identity_lambda"
    by (simp add: get_exp_def env_entry_def add_exp_def isSymbol_def asSymbol_def dq_def)
  have lam: "isLambda (get_exp ?env (SymbolKind ''f''))
      \<and> m_tail (get_exp ?env (SymbolKind ''f'')) = list_exp [symbol ''x''] # [symbol ''x'']
      \<and> length (m_tail (list_exp [symbol ''x''])) = 1"
    unfolding bound
    by (simp add: identity_lambda_def lambda_exp_def isLambda_def list_exp_def)
  from positive_flag_interrupts [OF flag] obtain msg where
    a: "\<And>n e env. eval (Suc n) (runtime_with 1) e env = (Inl (SemanticError msg), env)" and
    b: "\<And>n op x xs env tmpl rest.
          isLambda (get_exp env op) \<and> m_tail (get_exp env op) = tmpl # rest
          \<and> length (m_tail tmpl) = 1
          \<Longrightarrow> map_loop (eval (Suc n) (runtime_with 1)) op env (x # xs)
              = Inl (SemanticError msg)"
    by blast
  show ?thesis
    using flag a [of 0 "num 1" "reset unavailable"] b [OF lam, of 0 "num 1" "[num 2]"]
    by blast
qed

end
